theory Spec2Isabelle
  imports Complex_Main "HOL-Library.Word"
begin

section \<open>The learning hub route (src/app/api/learning-hub/route.ts)\<close>

text \<open>
  A shallow embedding of the learning hub API route: the TTL cache, the profile derived
  from a hash of the user id, the module and assessment catalogs, and the two request
  handlers.

  Conventions of the model.
  \<^item> A JavaScript string is a HOL \<open>string\<close>; its code units are the characters, so
    \<open>charCodeAt\<close> is \<open>of_char\<close> and code units range over 0..255.
  \<^item> A JavaScript number that holds an integer is an \<open>int\<close>. The route only adds,
    subtracts and takes remainders of integers, which is exact on doubles below
    \<open>2 ^ 53\<close> in absolute value. A double is the \<open>real\<close> it stands for:
    \<open>Math.random()\<close> is handed to the handler, and its product with 40 is rounded to a
    double as the multiplication of doubles does.
  \<^item> The clock is read once per call: \<open>nowMs\<close> is \<open>Date.now()\<close> and \<open>nowISO\<close> is
    \<open>new Date().toISOString()\<close> at that moment.
  \<^item> Mutation of the module-level \<open>learningCache\<close> is explicit state passing: a
    function that touches the cache returns the new cache beside its result.
  \<^item> \<open>console.log\<close> and \<open>console.error\<close> are not modelled.
\<close>

subsection \<open>JavaScript values\<close>

datatype json =
    JNull
  | JBool bool
  | JNum real
  | JStr string
  | JArr "json list"
  | JObj "(string \<times> json) list"

text \<open>Truthiness of a parsed JSON value; \<open>undefined\<close> (a missing property) is \<open>None\<close>.\<close>

fun truthy :: "json option \<Rightarrow> bool" where
  "truthy None = False"
| "truthy (Some JNull) = False"
| "truthy (Some (JBool b)) = b"
| "truthy (Some (JNum x)) = (x \<noteq> 0)"
| "truthy (Some (JStr s)) = (s \<noteq> [])"
| "truthy (Some (JArr xs)) = True"
| "truthy (Some (JObj kvs)) = True"

text \<open>
  Property read \<open>body.k\<close> on a parsed body that is not \<open>null\<close>. \<open>JSON.parse\<close> keeps the
  last of several equal keys; a number, boolean, string or array has no such property.
\<close>

fun getProp :: "json \<Rightarrow> string \<Rightarrow> json option" where
  "getProp (JObj kvs) k = map_of (rev kvs) k"
| "getProp other k = None"

text \<open>\<open>v || d\<close> on a value that is a string, \<open>null\<close> or \<open>undefined\<close>.\<close>

definition orElse :: "string option \<Rightarrow> string \<Rightarrow> string" where
  "orElse v d = (case v of None \<Rightarrow> d | Some s \<Rightarrow> if s = [] then d else s)"

text \<open>\<open>a << n\<close>: the left operand is taken to 32 bits, shifted, and read back signed.\<close>

definition shl :: "int \<Rightarrow> nat \<Rightarrow> int" where
  "shl a n = sint (push_bit n (word_of_int a :: 32 word))"

text \<open>
  Multiplication of two doubles: the exact product, rounded to the nearest double, a
  tie going to the even significand. \<open>binExp\<close> finds the binary exponent of a positive
  number by halving or doubling it into \<open>[1, 2)\<close>; 1100 steps reach every exponent of a
  double, and below \<open>- 1022\<close> the subnormal spacing applies. Products of magnitude
  \<open>2 ^ 1024\<close> or more, which the arithmetic of doubles turns into \<open>Infinity\<close>, are outside
  the model: the route only multiplies a number below 1 by 40.
\<close>

definition pow2 :: "int \<Rightarrow> real" where
  "pow2 k = (if 0 \<le> k then 2 ^ nat k else 1 / 2 ^ nat (- k))"

fun binExp :: "nat \<Rightarrow> real \<Rightarrow> int" where
  "binExp fuel x =
     (if fuel = 0 then 0
      else if 2 \<le> x then binExp (fuel - 1) (x / 2) + 1
      else if x < 1 then binExp (fuel - 1) (x * 2) - 1
      else 0)"

declare binExp.simps [simp del]

definition roundHalfEven :: "real \<Rightarrow> int" where
  "roundHalfEven x =
     (let f = \<lfloor>x\<rfloor>; d = x - of_int f in
      if d < 1 / 2 then f
      else if 1 / 2 < d then f + 1
      else if even f then f else f + 1)"

definition roundDouble :: "real \<Rightarrow> real" where
  "roundDouble x =
     (if x = 0 then 0
      else
        (let e = max (- 1022) (binExp 1100 \<bar>x\<bar>);
             q = pow2 (e - 52)
         in sgn x * of_int (roundHalfEven (\<bar>x\<bar> / q)) * q))"

definition doubleMul :: "real \<Rightarrow> real \<Rightarrow> real" where
  "doubleMul x y = roundDouble (x * y)"

text \<open>An integer inside a template literal.\<close>

fun showNat :: "nat \<Rightarrow> string" where
  "showNat n =
     (if n < 10 then [char_of (48 + n)]
      else showNat (n div 10) @ [char_of (48 + n mod 10)])"

definition showInt :: "int \<Rightarrow> string" where
  "showInt i = (if i < 0 then ''-'' @ showNat (nat (- i)) else showNat (nat i))"

record clock =
  nowMs :: int
  nowISO :: string

subsection \<open>Cache system\<close>

record 'v entry =
  data :: 'v
  timestamp :: int

type_synonym 'v store = "string \<rightharpoonup> 'v entry"

definition CACHE_DURATION :: int where
  "CACHE_DURATION = 30 * 60 * 1000"

definition getCachedData :: "clock \<Rightarrow> 'v store \<Rightarrow> string \<Rightarrow> 'v option" where
  "getCachedData clk m key =
     (case m key of
        Some cached \<Rightarrow>
          if nowMs clk - timestamp cached < CACHE_DURATION then Some (data cached) else None
      | None \<Rightarrow> None)"

definition setCachedData :: "clock \<Rightarrow> string \<Rightarrow> 'v \<Rightarrow> 'v store \<Rightarrow> 'v store" where
  "setCachedData clk key d m = m(key \<mapsto> \<lparr>data = d, timestamp = nowMs clk\<rparr>)"

subsection \<open>Data model\<close>

record LearningModule =
  mod_id :: string
  mod_title :: string
  mod_description :: string
  duration :: string
  xp :: int
  completed :: bool
  mod_difficulty :: string
  category :: string
  content :: "json option"

record Achievement =
  ach_id :: string
  ach_title :: string
  ach_description :: string
  date :: string

record UserProgress =
  userId :: string
  level :: int
  currentXP :: int
  totalXP :: int
  nextLevel :: string
  achievements :: "Achievement list"
  completedModules :: "string list"
  currentModule :: "string option"
  streakDays :: int
  totalStudyTime :: int

record Assessment =
  asm_id :: string
  asm_title :: string
  asm_description :: string
  questions :: int
  timeLimit :: int
  asm_difficulty :: string
  xpReward :: int

text \<open>
  \<open>learningCache\<close> is one \<open>Map\<close> from key strings to entries whose data is untyped. Its
  keys come in three families, \<open>modules_...\<close>, \<open>user_progress_...\<close> and
  \<open>assessments_...\<close>, which differ in their first character, and each family only ever
  stores one type of data. The model keeps one typed store per family, each under the
  full key string of the source.
\<close>

record learningCache =
  moduleEntries :: "LearningModule list store"
  progressEntries :: "UserProgress store"
  assessmentEntries :: "Assessment list store"

definition emptyCache :: learningCache where
  "emptyCache = \<lparr>moduleEntries = Map.empty, progressEntries = Map.empty,
     assessmentEntries = Map.empty\<rparr>"

subsection \<open>Learning modules\<close>

definition baseModules :: "LearningModule list" where
  "baseModules =
    [ \<lparr>mod_id = ''nasa-data-intro'',
       mod_title = ''NASA Earth Observation Fundamentals'',
       mod_description = ''Learn to interpret satellite data for agricultural applications'',
       duration = ''20 min'', xp = 150, completed = False,
       mod_difficulty = ''beginner'', category = ''fundamentals'', content = None\<rparr>,
      \<lparr>mod_id = ''satellite-imagery'',
       mod_title = ''Satellite Imagery Analysis'',
       mod_description = ''Master MODIS and Landsat data interpretation'',
       duration = ''25 min'', xp = 200, completed = False,
       mod_difficulty = ''intermediate'', category = ''analysis'', content = None\<rparr>,
      \<lparr>mod_id = ''ndvi-analysis'',
       mod_title = ''NDVI and Vegetation Health'',
       mod_description = ''Monitor crop health using vegetation indices'',
       duration = ''30 min'', xp = 250, completed = False,
       mod_difficulty = ''intermediate'', category = ''monitoring'', content = None\<rparr>,
      \<lparr>mod_id = ''soil-moisture'',
       mod_title = ''SMAP Soil Moisture Data'',
       mod_description = ''Optimize irrigation using soil moisture measurements'',
       duration = ''35 min'', xp = 300, completed = False,
       mod_difficulty = ''advanced'', category = ''precision-agriculture'', content = None\<rparr>,
      \<lparr>mod_id = ''climate-adaptation'',
       mod_title = ''Climate Change Adaptation'',
       mod_description = ''Long-term planning using climate data trends'',
       duration = ''40 min'', xp = 400, completed = False,
       mod_difficulty = ''advanced'', category = ''sustainability'', content = None\<rparr> ]"

text \<open>\<open>if (level && level !== 'all')\<close>: an absent or empty level does not filter.\<close>

definition generateDynamicModules :: "string option \<Rightarrow> string option \<Rightarrow> LearningModule list" where
  "generateDynamicModules lvl uid =
     (case lvl of
        None \<Rightarrow> baseModules
      | Some l \<Rightarrow>
          if l \<noteq> [] \<and> l \<noteq> ''all''
          then filter (\<lambda>m. mod_difficulty m = l) baseModules
          else baseModules)"

text \<open>
  The \<open>catch\<close> branch of \<open>fetchLearningModules\<close> is not modelled: nothing in
  \<open>generateDynamicModules\<close> or \<open>setCachedData\<close> throws. A cached list is an array, which
  is truthy also when it is empty, so \<open>if (cached) return cached\<close> returns every hit.
\<close>

definition fetchLearningModules ::
  "clock \<Rightarrow> string option \<Rightarrow> string option \<Rightarrow> learningCache
     \<Rightarrow> LearningModule list \<times> learningCache" where
  "fetchLearningModules clk lvl uid cache =
     (let cacheKey = ''modules_'' @ orElse lvl ''all'' @ ''_'' @ orElse uid ''guest'' in
      case getCachedData clk (moduleEntries cache) cacheKey of
        Some cached \<Rightarrow> (cached, cache)
      | None \<Rightarrow>
          (let modules = generateDynamicModules lvl uid in
           (modules,
            cache\<lparr>moduleEntries := setCachedData clk cacheKey modules (moduleEntries cache)\<rparr>)))"

subsection \<open>User progress\<close>

text \<open>\<open>userId.split('').reduce((a, b) => ((a << 5) - a) + b.charCodeAt(0), 0)\<close>\<close>

definition userHash :: "string \<Rightarrow> int" where
  "userHash uid = foldl (\<lambda>a b. (shl a 5 - a) + of_char b) 0 uid"

definition levels :: "string list" where
  "levels = [''Novice Farmer'', ''Farm Analyst'', ''Data Specialist'',
     ''Sustainability Expert'', ''Master Navigator'']"

text \<open>
  \<open>levels[Math.min(level - 1, levels.length - 1)] || 'Master Navigator'\<close>: a negative
  index reads \<open>undefined\<close>, which the \<open>||\<close> replaces.
\<close>

definition getLevelName :: "int \<Rightarrow> string" where
  "getLevelName lvl =
     (let i = min (lvl - 1) (int (length levels) - 1) in
      if 0 \<le> i then levels ! nat i else ''Master Navigator'')"

text \<open>\<open>new Date().toISOString().split('T')[0]\<close>\<close>

definition today :: "clock \<Rightarrow> string" where
  "today clk = takeWhile (\<lambda>c. c \<noteq> CHR ''T'') (nowISO clk)"

definition getUserAchievements :: "clock \<Rightarrow> string \<Rightarrow> Achievement list" where
  "getUserAchievements clk uid =
     (let h = \<bar>userHash uid\<bar>;
          achievementCount = h mod 3 + 1;
          allAchievements =
            [ \<lparr>ach_id = ''first-steps'', ach_title = ''First Steps'',
               ach_description = ''Completed your first learning module'', date = today clk\<rparr>,
              \<lparr>ach_id = ''data-explorer'', ach_title = ''Data Explorer'',
               ach_description = ''Analyzed your first NASA dataset'', date = today clk\<rparr>,
              \<lparr>ach_id = ''quick-learner'', ach_title = ''Quick Learner'',
               ach_description = ''Completed 3 modules in one day'', date = today clk\<rparr> ]
      in take (nat achievementCount) allAchievements)"

definition getUserCompletedModules :: "string \<Rightarrow> string list" where
  "getUserCompletedModules uid =
     (let h = \<bar>userHash uid\<bar>;
          completedCount = h mod 3;
          possibleModules = [''nasa-data-intro'', ''satellite-imagery'', ''ndvi-analysis'']
      in take (nat completedCount) possibleModules)"

definition getUserProgressFromDatabase :: "clock \<Rightarrow> string \<Rightarrow> UserProgress" where
  "getUserProgressFromDatabase clk uid =
     (let h = userHash uid;
          lvl = max 1 (\<bar>h\<bar> mod 5 + 1);
          cur = \<bar>h\<bar> mod 1000 + 500;
          baseXP = lvl * 1000
      in \<lparr>userId = uid,
          level = lvl,
          currentXP = cur,
          totalXP = baseXP,
          nextLevel = getLevelName (lvl + 1),
          achievements = getUserAchievements clk uid,
          completedModules = getUserCompletedModules uid,
          currentModule = None,
          streakDays = \<bar>h\<bar> mod 30 + 1,
          totalStudyTime = \<bar>h\<bar> mod 500 + 100\<rparr>)"

text \<open>
  The \<open>catch\<close> branch of \<open>fetchUserProgress\<close> (\<open>getDefaultUserProgress\<close>) is not
  modelled: nothing in \<open>getUserProgressFromDatabase\<close> throws.
\<close>

definition fetchUserProgress ::
  "clock \<Rightarrow> string \<Rightarrow> learningCache \<Rightarrow> UserProgress \<times> learningCache" where
  "fetchUserProgress clk uid cache =
     (let cacheKey = ''user_progress_'' @ uid in
      case getCachedData clk (progressEntries cache) cacheKey of
        Some cached \<Rightarrow> (cached, cache)
      | None \<Rightarrow>
          (let progress = getUserProgressFromDatabase clk uid in
           (progress,
            cache\<lparr>progressEntries := setCachedData clk cacheKey progress (progressEntries cache)\<rparr>)))"

subsection \<open>Assessments\<close>

definition generateDynamicAssessments :: "string option \<Rightarrow> Assessment list" where
  "generateDynamicAssessments uid =
    [ \<lparr>asm_id = ''nasa-fundamentals'', asm_title = ''NASA Data Fundamentals'',
       asm_description = ''Test your understanding of satellite data applications'',
       questions = 10, timeLimit = 15, asm_difficulty = ''beginner'', xpReward = 200\<rparr>,
      \<lparr>asm_id = ''satellite-analysis'', asm_title = ''Satellite Data Analysis'',
       asm_description = ''Advanced assessment on satellite imagery interpretation'',
       questions = 15, timeLimit = 25, asm_difficulty = ''intermediate'', xpReward = 350\<rparr> ]"

definition fetchAssessments ::
  "clock \<Rightarrow> string option \<Rightarrow> learningCache \<Rightarrow> Assessment list \<times> learningCache" where
  "fetchAssessments clk uid cache =
     (let cacheKey = ''assessments_'' @ orElse uid ''guest'' in
      case getCachedData clk (assessmentEntries cache) cacheKey of
        Some cached \<Rightarrow> (cached, cache)
      | None \<Rightarrow>
          (let assessments = generateDynamicAssessments uid in
           (assessments,
            cache\<lparr>assessmentEntries :=
              setCachedData clk cacheKey assessments (assessmentEntries cache)\<rparr>)))"

subsection \<open>Module completion and progress tracking\<close>

text \<open>
  Both functions return \<open>true\<close>: their \<open>catch\<close> branches are out of reach, since
  \<open>Map.delete\<close> does not throw.
\<close>

definition updateModuleProgress ::
  "string \<Rightarrow> json option \<Rightarrow> bool \<Rightarrow> learningCache \<Rightarrow> bool \<times> learningCache" where
  "updateModuleProgress uid moduleId isCompleted cache =
     (True,
      cache\<lparr>progressEntries := (progressEntries cache)((''user_progress_'' @ uid) := None),
            moduleEntries := (moduleEntries cache)((''modules_all_'' @ uid) := None)\<rparr>)"

definition awardXP :: "string \<Rightarrow> int \<Rightarrow> learningCache \<Rightarrow> bool \<times> learningCache" where
  "awardXP uid xpAmount cache =
     (True,
      cache\<lparr>progressEntries := (progressEntries cache)((''user_progress_'' @ uid) := None)\<rparr>)"

subsection \<open>Dynamic module content\<close>

record moduleContent =
  personalizedTips :: "string list"
  recommendedNext :: "string option"
  difficultyAdjustment :: string
  estimatedTime :: string

text \<open>
  The last tip ends in the emoji U+1F525, which lies outside the code units of a HOL
  string; it is written here as its four UTF-8 bytes.
\<close>

definition generatePersonalizedTips :: "UserProgress \<Rightarrow> string list" where
  "generatePersonalizedTips userProgress =
     (let tips =
        [ ''Great job reaching Level '' @ showInt (level userProgress)
            @ ''! Keep up the momentum.'',
          ''Try applying these concepts to real NASA datasets for better retention.'' ]
      in if streakDays userProgress > 7
         then tips @ [ ''Amazing '' @ showInt (streakDays userProgress)
                         @ ''-day streak! You're on fire! ''
                         @ [char_of (240::nat), char_of (159::nat), char_of (148::nat),
                            char_of (165::nat)] ]
         else tips)"

definition getRecommendedModule :: "UserProgress \<Rightarrow> string option" where
  "getRecommendedModule userProgress =
     (let done = completedModules userProgress in
      if length done = 0 then Some ''nasa-data-intro''
      else if ''satellite-imagery'' \<notin> set done then Some ''satellite-imagery''
      else Some ''ndvi-analysis'')"

definition getDifficultyLevel :: "UserProgress \<Rightarrow> string" where
  "getDifficultyLevel userProgress =
     (if level userProgress \<ge> 3 then ''advanced''
      else if level userProgress \<ge> 2 then ''intermediate''
      else ''beginner'')"

definition getEstimatedTime :: "string \<Rightarrow> UserProgress \<Rightarrow> string" where
  "getEstimatedTime moduleId userProgress =
     (let baseTime = 20;
          adjustment = (if level userProgress > 2 then - 5 else 5)
      in showInt (baseTime + adjustment) @ '' min'')"

text \<open>
  The \<open>catch\<close> branch of \<open>generateModuleContent\<close> is not modelled: on a progress record
  none of the four generators throws.
\<close>

definition generateModuleContent ::
  "clock \<Rightarrow> string \<Rightarrow> string \<Rightarrow> learningCache \<Rightarrow> moduleContent \<times> learningCache" where
  "generateModuleContent clk moduleId uid cache =
     (case fetchUserProgress clk uid cache of
        (userProgress, cache1) \<Rightarrow>
          (\<lparr>personalizedTips = generatePersonalizedTips userProgress,
            recommendedNext = getRecommendedModule userProgress,
            difficultyAdjustment = getDifficultyLevel userProgress,
            estimatedTime = getEstimatedTime moduleId userProgress\<rparr>,
           cache1))"

subsection \<open>Requests and responses\<close>

text \<open>
  \<open>searchParams.get\<close> returns \<open>null\<close> (here \<open>None\<close>) for an absent parameter and the
  string otherwise.
\<close>

record searchParams =
  actionParam :: "string option"
  moduleIdParam :: "string option"
  userIdParam :: "string option"
  levelParam :: "string option"

record leaderboardRow =
  rank :: int
  name :: string
  row_xp :: int
  row_level :: string

text \<open>
  What \<open>String(error)\<close> reports in the 500 response of \<open>POST\<close>: the body was not JSON
  (\<open>request.json()\<close> rejected), or it was \<open>null\<close> (destructuring it threw).
\<close>

datatype thrown = BodyNotJson | BodyIsNull

text \<open>One constructor for each shape of JSON that the handlers answer with.\<close>

datatype body =
    ModulesBody "LearningModule list" nat "string list" bool string
      \<comment> \<open>\<open>data.modules\<close>, \<open>data.totalModules\<close>, \<open>data.categories\<close>, \<open>cache.cached\<close>,
          \<open>cache.timestamp\<close>\<close>
  | ProgressBody UserProgress bool string
      \<comment> \<open>\<open>data\<close>, \<open>cache.cached\<close>, \<open>cache.timestamp\<close>\<close>
  | ModuleContentBody LearningModule moduleContent UserProgress
      \<comment> \<open>\<open>data.module\<close>, \<open>data.dynamic\<close>, \<open>data.userProgress\<close>\<close>
  | AssessmentsBody "Assessment list" "string list"
      \<comment> \<open>\<open>data.assessments\<close>, \<open>data.userCompletedAssessments\<close>\<close>
  | LeaderboardBody "leaderboardRow list" int int
      \<comment> \<open>\<open>data.leaderboard\<close>, \<open>data.userRank\<close>, \<open>data.totalUsers\<close>\<close>
  | ModuleStartedBody string int
      \<comment> \<open>\<open>data.message\<close>, \<open>data.xpAwarded\<close>\<close>
  | ModuleCompletedBody string int int
      \<comment> \<open>\<open>data.message\<close>, \<open>data.xpAwarded\<close>, \<open>data.newXP\<close>\<close>
  | AssessmentResultBody int int bool int
      \<comment> \<open>\<open>data.score\<close>, \<open>data.xpEarned\<close>, \<open>data.passed\<close>, \<open>data.newTotalXP\<close>\<close>
  | ErrorBody string "thrown option"
      \<comment> \<open>\<open>error\<close>, \<open>details\<close>\<close>

record response =
  status :: nat
  payload :: body

text \<open>\<open>NextResponse.json(b)\<close> answers with status 200.\<close>

definition ok :: "body \<Rightarrow> response" where
  "ok b = \<lparr>status = 200, payload = b\<rparr>"

definition failWith :: "nat \<Rightarrow> string \<Rightarrow> response" where
  "failWith st msg = \<lparr>status = st, payload = ErrorBody msg None\<rparr>"

text \<open>Readers of a response, for the statements below.\<close>

fun cachedFlag :: "body \<Rightarrow> bool option" where
  "cachedFlag (ModulesBody ms n cs c ts) = Some c"
| "cachedFlag (ProgressBody p c ts) = Some c"
| "cachedFlag other = None"


subsection \<open>API route handlers\<close>

text \<open>
  Nothing inside the \<open>try\<close> of \<open>GET\<close> throws, so its 500 answer is out of reach and not
  modelled.
\<close>

definition GET :: "clock \<Rightarrow> searchParams \<Rightarrow> learningCache \<Rightarrow> response \<times> learningCache" where
  "GET clk params cache =
     (let action = actionParam params;
          moduleId = moduleIdParam params;
          uid = orElse (userIdParam params) ''guest''
      in
      if action = Some ''modules'' then
        (let lvl = orElse (levelParam params) ''all'' in
         case fetchLearningModules clk (Some lvl) (Some uid) cache of
           (modulesList, cache1) \<Rightarrow>
             (ok (ModulesBody modulesList (length modulesList)
                    [''fundamentals'', ''analysis'', ''monitoring'', ''precision-agriculture'',
                     ''sustainability'']
                    False (nowISO clk)),
              cache1))
      else if action = Some ''progress'' then
        (case fetchUserProgress clk uid cache of
           (userProgress, cache1) \<Rightarrow>
             (ok (ProgressBody userProgress False (nowISO clk)), cache1))
      else if action = Some ''module-content'' then
        (case moduleId of
           None \<Rightarrow> (failWith 400 ''Module ID required'', cache)
         | Some mid \<Rightarrow>
             if mid = [] then (failWith 400 ''Module ID required'', cache)
             else
               case fetchLearningModules clk (Some ''all'') (Some uid) cache of
                 (allModules, cache1) \<Rightarrow>
                   (case find (\<lambda>m. mod_id m = mid) allModules of
                      None \<Rightarrow> (failWith 404 ''Module not found'', cache1)
                    | Some foundModule \<Rightarrow>
                        (case generateModuleContent clk mid uid cache1 of
                           (dynamicContent, cache2) \<Rightarrow>
                             (case fetchUserProgress clk uid cache2 of
                                (userProgress, cache3) \<Rightarrow>
                                  (ok (ModuleContentBody foundModule dynamicContent
                                         userProgress),
                                   cache3)))))
      else if action = Some ''assessments'' then
        (case fetchAssessments clk (Some uid) cache of
           (assessments, cache1) \<Rightarrow> (ok (AssessmentsBody assessments []), cache1))
      else if action = Some ''leaderboard'' then
        (case fetchUserProgress clk uid cache of
           (currentUser, cache1) \<Rightarrow>
             (ok (LeaderboardBody
                    [ \<lparr>rank = 1, name = ''NASA Explorer'', row_xp = 5420,
                       row_level = ''Sustainability Expert''\<rparr>,
                      \<lparr>rank = 2, name = ''Farm Innovator'', row_xp = 4890,
                       row_level = ''Sustainability Expert''\<rparr>,
                      \<lparr>rank = 3, name = ''You'', row_xp = currentXP currentUser,
                       row_level = getLevelName (level currentUser)\<rparr>,
                      \<lparr>rank = 4, name = ''Earth Observer'', row_xp = 1180,
                       row_level = ''Farm Analyst''\<rparr>,
                      \<lparr>rank = 5, name = ''Crop Master'', row_xp = 980,
                       row_level = ''Farm Analyst''\<rparr> ]
                    3 1247),
              cache1))
      else (failWith 400 ''Invalid action'', cache))"

text \<open>
  \<open>POST\<close> reads the body with \<open>request.json()\<close>: \<open>None\<close> stands for a body that is not
  JSON. \<open>rnd\<close> is the double \<open>Math.random()\<close> returns, in \<open>[0, 1)\<close>;
  \<open>Math.floor(Math.random() * 40)\<close> is the floor of the rounded product.
\<close>

definition POST ::
  "clock \<Rightarrow> real \<Rightarrow> searchParams \<Rightarrow> json option \<Rightarrow> learningCache
     \<Rightarrow> response \<times> learningCache" where
  "POST clk rnd params parsed cache =
     (let uid = orElse (userIdParam params) ''guest'' in
      case parsed of
        None \<Rightarrow>
          (\<lparr>status = 500, payload = ErrorBody ''Failed to process request'' (Some BodyNotJson)\<rparr>,
           cache)
      | Some reqBody \<Rightarrow>
          if reqBody = JNull then
            (\<lparr>status = 500, payload = ErrorBody ''Failed to process request'' (Some BodyIsNull)\<rparr>,
             cache)
          else
            (let action = getProp reqBody ''action'';
                 moduleId = getProp reqBody ''moduleId''
             in
             if action = Some (JStr ''start-module'') then
               (if \<not> truthy moduleId then (failWith 400 ''Module ID required'', cache)
                else
                  case updateModuleProgress uid moduleId False cache of
                    (success, cache1) \<Rightarrow>
                      (ok (ModuleStartedBody ''Module started successfully'' 50),
                       if success then snd (awardXP uid 50 cache1) else cache1))
             else if action = Some (JStr ''complete-module'') then
               (if \<not> truthy moduleId then (failWith 400 ''Module ID required'', cache)
                else
                  case updateModuleProgress uid moduleId True cache of
                    (isCompleted, cache1) \<Rightarrow>
                      (case fetchUserProgress clk uid
                              (if isCompleted then snd (awardXP uid 150 cache1) else cache1) of
                         (userProgress, cache2) \<Rightarrow>
                           (ok (ModuleCompletedBody ''Module completed successfully'' 150
                                  (currentXP userProgress)),
                            cache2)))
             else if action = Some (JStr ''submit-assessment'') then
               (let assessmentId = getProp reqBody ''assessmentId'';
                    answers = getProp reqBody ''answers''
                in
                if \<not> truthy assessmentId \<or> \<not> truthy answers
                then (failWith 400 ''Assessment ID and answers required'', cache)
                else
                  (let mockScore = \<lfloor>doubleMul rnd 40\<rfloor> + 60;
                       xpEarned = (if mockScore > 70 then 200 else 100)
                   in
                   case fetchUserProgress clk uid (snd (awardXP uid xpEarned cache)) of
                     (userProgress, cache2) \<Rightarrow>
                       (ok (AssessmentResultBody mockScore xpEarned (mockScore \<ge> 70)
                              (currentXP userProgress)),
                        cache2)))
             else (failWith 400 ''Invalid POST action'', cache)))"

subsection \<open>Notions used to state the properties\<close>

text \<open>
  The polynomial string hash in the words of the specification: fold each character's
  code into an accumulator by \<open>acc = acc * 31 + charCode\<close>, starting from 0, over the
  unbounded integers.
\<close>

definition polyHash :: "string \<Rightarrow> int" where
  "polyHash s = foldl (\<lambda>acc c. acc * 31 + of_char c) 0 s"

text \<open>A profile with the \<open>date\<close> of every achievement blanked.\<close>

definition withoutDates :: "UserProgress \<Rightarrow> UserProgress" where
  "withoutDates p = p\<lparr>achievements := map (\<lambda>a. a\<lparr>date := []\<rparr>) (achievements p)\<rparr>"

text \<open>
  The requests a process answers, each with the clock reading at which it is answered,
  and for \<open>POST\<close> the random number and the parsed body. \<open>serve rs\<close> is the cache of a
  process that started with an empty \<open>learningCache\<close> and has answered the requests
  \<open>rs\<close> in this order.
\<close>

datatype request =
    GetRequest clock searchParams
  | PostRequest clock real searchParams "json option"

fun handle :: "request \<Rightarrow> learningCache \<Rightarrow> response \<times> learningCache" where
  "handle (GetRequest clk q) cache = GET clk q cache"
| "handle (PostRequest clk rnd q parsed) cache = POST clk rnd q parsed cache"

definition serve :: "request list \<Rightarrow> learningCache" where
  "serve rs = foldl (\<lambda>cache r. snd (handle r cache)) emptyCache rs"

text \<open>
  The key under which \<open>fetchLearningModules\<close> caches the modules of level \<open>l\<close> for the
  user \<open>u\<close>, and the pairs of level and user for which a request calls
  \<open>fetchLearningModules\<close>: a \<open>modules\<close> request for its own level, a \<open>module-content\<close>
  request with a module id for the level \<open>all\<close>.
\<close>

definition modulesKey :: "string \<Rightarrow> string \<Rightarrow> string" where
  "modulesKey l u = ''modules_'' @ l @ ''_'' @ u"

fun fetchedFor :: "request \<Rightarrow> (string \<times> string) list" where
  "fetchedFor (GetRequest clk q) =
     (if actionParam q = Some ''modules''
      then [(orElse (levelParam q) ''all'', orElse (userIdParam q) ''guest'')]
      else if actionParam q = Some ''module-content'' \<and> orElse (moduleIdParam q) [] \<noteq> []
      then [(''all'', orElse (userIdParam q) ''guest'')]
      else [])"
| "fetchedFor (PostRequest clk rnd q parsed) = []"

text \<open>
  Every module list in the cache was stored for one of the pairs in \<open>P\<close>, under the key
  of that pair, and is the list generated for the level of that pair.
\<close>

definition storedFor :: "(string \<times> string) set \<Rightarrow> learningCache \<Rightarrow> bool" where
  "storedFor P cache =
     (\<forall>k e. moduleEntries cache k = Some e
        \<longrightarrow> (\<exists>l u. (l, u) \<in> P \<and> k = modulesKey l u
                   \<and> data e = generateDynamicModules (Some l) (Some u)))"

section \<open>The hash of a user id\<close>

lemma of_char_int_nonneg: "0 \<le> (of_char c :: int)"
  by (cases c) simp

lemma shl_5_wrap: "shl a 5 = (a * 32 + 2 ^ 31) mod 2 ^ 32 - 2 ^ 31"
proof -
  have "push_bit 5 (word_of_int a :: 32 word) = word_of_int (a * 32)"
    by (simp add: push_bit_eq_mult)
  moreover have "sint (word_of_int (a * 32) :: 32 word) = (a * 32 + 2 ^ 31) mod 2 ^ 32 - 2 ^ 31"
    using int_word_sint [where 'a = 32, of "a * 32"] by simp
  ultimately show ?thesis
    by (simp only: shl_def)
qed

lemma shl_5_cong: "shl a 5 mod 2 ^ 32 = (a * 32) mod 2 ^ 32"
proof -
  have "((a * 32 + 2 ^ 31) mod 2 ^ 32 - 2 ^ 31) mod 2 ^ 32
      = (a * 32 + 2 ^ 31 - 2 ^ 31) mod (2 ^ 32 :: int)"
    by (rule mod_diff_left_eq)
  then show ?thesis by (simp add: shl_5_wrap)
qed

lemma shl_5_exact:
  assumes "- (2 ^ 26) \<le> a" and "a < 2 ^ 26"
  shows "shl a 5 = a * 32"
proof -
  have "0 \<le> a * 32 + 2 ^ 31" and "a * 32 + 2 ^ 31 < 2 ^ 32"
    using assms by simp_all
  then have "(a * 32 + 2 ^ 31) mod 2 ^ 32 = a * 32 + 2 ^ 31"
    by (rule mod_pos_pos_trivial)
  then show ?thesis by (simp add: shl_5_wrap)
qed

lemma userHash_snoc: "userHash (u @ [c]) = (shl (userHash u) 5 - userHash u) + of_char c"
  by (simp add: userHash_def)

lemma polyHash_snoc: "polyHash (u @ [c]) = polyHash u * 31 + of_char c"
  by (simp add: polyHash_def)

lemma polyHash_nonneg: "0 \<le> polyHash u"
  by (induction u rule: rev_induct) (simp_all add: polyHash_def of_char_int_nonneg)

text \<open>Each step of the fold agrees with \<open>acc * 31 + charCode\<close> up to a multiple of \<open>2 ^ 32\<close>.\<close>

lemma step_cong:
  fixes s h p c m :: int
  assumes s: "s mod m = (h * 32) mod m" and ih: "h mod m = p mod m"
  shows "(s - h + c) mod m = (p * 31 + c) mod m"
proof -
  have "(s - h) mod m = (h * 32 - h) mod m"
    using s by (rule mod_diff_cong) simp
  also have "h * 32 - h = h * 31"
    by simp
  also have "(h * 31) mod m = (p * 31) mod m"
    using ih by (rule mod_mult_cong) simp
  finally have "(s - h) mod m = (p * 31) mod m" .
  then show ?thesis
    by (rule mod_add_cong) simp
qed

lemma userHash_cong: "userHash u mod 2 ^ 32 = polyHash u mod 2 ^ 32"
proof (induction u rule: rev_induct)
  case Nil
  show ?case by (simp add: userHash_def polyHash_def)
next
  case (snoc c u)
  show ?case
    unfolding userHash_snoc polyHash_snoc
    using shl_5_cong [of "userHash u"] snoc.IH by (rule step_cong)
qed

text \<open>While the accumulator stays below \<open>2 ^ 26\<close> the shift does not wrap.\<close>

lemma userHash_exact:
  "(\<And>n. n < length u \<Longrightarrow> polyHash (take n u) < 2 ^ 26) \<Longrightarrow> userHash u = polyHash u"
proof (induction u rule: rev_induct)
  case Nil
  show ?case by (simp add: userHash_def polyHash_def)
next
  case (snoc c u)
  have small: "polyHash u < 2 ^ 26"
    using snoc.prems [of "length u"] by simp
  have "userHash u = polyHash u"
  proof (rule snoc.IH)
    fix n assume "n < length u"
    then show "polyHash (take n u) < 2 ^ 26"
      using snoc.prems [of n] by simp
  qed
  moreover have "shl (polyHash u) 5 = polyHash u * 32"
    using polyHash_nonneg [of u] small by (intro shl_5_exact) simp_all
  ultimately show ?case
    by (simp add: userHash_snoc polyHash_snoc)
qed

text \<open>
  C4, as amended. The hash that the profile is derived from is the fold of
  \<open>acc = (acc << 5) - acc + charCode\<close>, whose shift wraps to 32 bits while the
  subtraction and the addition do not. It is congruent to the polynomial hash
  \<open>acc = acc * 31 + charCode\<close> modulo \<open>2 ^ 32\<close>, and equal to it when the polynomial hash
  of every proper prefix of the user id is below \<open>2 ^ 26\<close>.
\<close>

theorem userHash_polyHash:
  "userHash u mod 2 ^ 32 = polyHash u mod 2 ^ 32
   \<and> ((\<forall>n < length u. polyHash (take n u) < 2 ^ 26) \<longrightarrow> userHash u = polyHash u)"
  using userHash_cong [of u] userHash_exact [of u] by blast

theorem userHash_polyHash_witness:
  "polyHash [] < 2 ^ 26 \<and> polyHash ''g'' < 2 ^ 26 \<and> polyHash ''gu'' < 2 ^ 26
   \<and> polyHash ''gue'' < 2 ^ 26 \<and> polyHash ''gues'' < 2 ^ 26
   \<and> userHash ''guest'' = polyHash ''guest''
   \<and> polyHash ''guest'' = 98708952
   \<and> userHash ''guest'' mod 2 ^ 32 = polyHash ''guest'' mod 2 ^ 32"
proof -
  have small: "polyHash [] < 2 ^ 26" "polyHash ''g'' < 2 ^ 26" "polyHash ''gu'' < 2 ^ 26"
    "polyHash ''gue'' < 2 ^ 26" "polyHash ''gues'' < 2 ^ 26"
    by (simp_all add: polyHash_def)
  have "\<forall>n < length ''guest''. polyHash (take n ''guest'') < 2 ^ 26"
  proof (intro allI impI)
    fix n :: nat
    assume "n < length ''guest''"
    then consider "n = 0" | "n = 1" | "n = 2" | "n = 3" | "n = 4"
      by fastforce
    then show "polyHash (take n ''guest'') < 2 ^ 26"
      using small by cases (simp_all add: eval_nat_numeral)
  qed
  with userHash_polyHash [of "''guest''"]
  have "userHash ''guest'' = polyHash ''guest''"
    and "userHash ''guest'' mod 2 ^ 32 = polyHash ''guest'' mod 2 ^ 32"
    by blast+
  moreover have "polyHash ''guest'' = 98708952"
    by (simp add: polyHash_def)
  ultimately show ?thesis
    using small by blast
qed

text \<open>
  The claim as stated fails at the user id \<open>aaaaaa\<close>: after five characters the
  accumulator is 92567585, above \<open>2 ^ 26\<close>, and the sixth shift wraps.
\<close>

theorem userHash_polyHash_counterexample:
  "userHash ''aaaaaa'' = - 1425372064
   \<and> polyHash ''aaaaaa'' = 2869595232
   \<and> userHash ''aaaaaa'' \<noteq> polyHash ''aaaaaa''"
  by (simp add: userHash_def polyHash_def shl_def)

section \<open>The derived profile\<close>

text \<open>
  C3. For every user id, the empty one included, the derived profile has a level from 1
  to 5, a current XP from 500 to 1499, a streak from 1 to 30 days, and a total XP of 1000
  times the level.
\<close>

theorem profile_ranges:
  "1 \<le> level (getUserProgressFromDatabase clk uid)
   \<and> level (getUserProgressFromDatabase clk uid) \<le> 5
   \<and> 500 \<le> currentXP (getUserProgressFromDatabase clk uid)
   \<and> currentXP (getUserProgressFromDatabase clk uid) \<le> 1499
   \<and> 1 \<le> streakDays (getUserProgressFromDatabase clk uid)
   \<and> streakDays (getUserProgressFromDatabase clk uid) \<le> 30
   \<and> totalXP (getUserProgressFromDatabase clk uid)
       = level (getUserProgressFromDatabase clk uid) * 1000"
proof -
  define h where "h = \<bar>userHash uid\<bar>"
  have "0 \<le> h mod 5" "h mod 5 < 5" "0 \<le> h mod 1000" "h mod 1000 < 1000"
    "0 \<le> h mod 30" "h mod 30 < 30"
    by simp_all
  then show ?thesis
    unfolding getUserProgressFromDatabase_def Let_def h_def [symmetric]
    by auto
qed

theorem profile_ranges_witness:
  "1 \<le> level (getUserProgressFromDatabase
            \<lparr>nowMs = 1704067200000, nowISO = ''2024-01-01T00:00:00.000Z''\<rparr> [])
   \<and> level (getUserProgressFromDatabase
            \<lparr>nowMs = 1704067200000, nowISO = ''2024-01-01T00:00:00.000Z''\<rparr> []) \<le> 5
   \<and> 500 \<le> currentXP (getUserProgressFromDatabase
            \<lparr>nowMs = 1704067200000, nowISO = ''2024-01-01T00:00:00.000Z''\<rparr> [])
   \<and> currentXP (getUserProgressFromDatabase
            \<lparr>nowMs = 1704067200000, nowISO = ''2024-01-01T00:00:00.000Z''\<rparr> []) \<le> 1499
   \<and> 1 \<le> streakDays (getUserProgressFromDatabase
            \<lparr>nowMs = 1704067200000, nowISO = ''2024-01-01T00:00:00.000Z''\<rparr> [])
   \<and> streakDays (getUserProgressFromDatabase
            \<lparr>nowMs = 1704067200000, nowISO = ''2024-01-01T00:00:00.000Z''\<rparr> []) \<le> 30
   \<and> totalXP (getUserProgressFromDatabase
            \<lparr>nowMs = 1704067200000, nowISO = ''2024-01-01T00:00:00.000Z''\<rparr> [])
       = level (getUserProgressFromDatabase
            \<lparr>nowMs = 1704067200000, nowISO = ''2024-01-01T00:00:00.000Z''\<rparr> []) * 1000"
  by (rule profile_ranges)

lemma withoutDates_clock:
  "withoutDates (getUserProgressFromDatabase clk1 uid)
     = withoutDates (getUserProgressFromDatabase clk2 uid)"
  by (simp add: withoutDates_def getUserProgressFromDatabase_def getUserAchievements_def
      Let_def flip: take_map)

lemma same_day_profile:
  "today clk1 = today clk2
     \<Longrightarrow> getUserProgressFromDatabase clk1 uid = getUserProgressFromDatabase clk2 uid"
  by (simp add: getUserProgressFromDatabase_def getUserAchievements_def Let_def)

text \<open>The date of every achievement is the day of the derivation.\<close>

lemma dates_are_today:
  "a \<in> set (achievements (getUserProgressFromDatabase clk uid)) \<Longrightarrow> date a = today clk"
  by (auto simp: getUserProgressFromDatabase_def getUserAchievements_def Let_def
      dest!: in_set_takeD)

text \<open>
  C2, as amended. Two derivations of the profile of one user id agree on every field but
  the \<open>date\<close> of the achievements, which is the day of the derivation; they agree on the
  whole profile when they happen on the same day.
\<close>

theorem profile_deterministic_up_to_date:
  "withoutDates (getUserProgressFromDatabase clk1 uid)
     = withoutDates (getUserProgressFromDatabase clk2 uid)
   \<and> (today clk1 = today clk2
        \<longrightarrow> getUserProgressFromDatabase clk1 uid = getUserProgressFromDatabase clk2 uid)"
  using withoutDates_clock same_day_profile by blast

theorem profile_deterministic_up_to_date_witness:
  "today \<lparr>nowMs = 1704067200000, nowISO = ''2024-01-01T00:00:00.000Z''\<rparr>
     = today \<lparr>nowMs = 1704070800000, nowISO = ''2024-01-01T01:00:00.000Z''\<rparr>
   \<and> getUserProgressFromDatabase
         \<lparr>nowMs = 1704067200000, nowISO = ''2024-01-01T00:00:00.000Z''\<rparr> ''guest''
     = getUserProgressFromDatabase
         \<lparr>nowMs = 1704070800000, nowISO = ''2024-01-01T01:00:00.000Z''\<rparr> ''guest''"
proof -
  have d: "today \<lparr>nowMs = 1704067200000, nowISO = ''2024-01-01T00:00:00.000Z''\<rparr>
     = today \<lparr>nowMs = 1704070800000, nowISO = ''2024-01-01T01:00:00.000Z''\<rparr>"
    by (simp add: today_def)
  from d profile_deterministic_up_to_date show ?thesis by blast
qed

text \<open>
  The claim as stated fails for the user id \<open>guest\<close> derived one millisecond before and
  at midnight: the achievement carries the day of the derivation.
\<close>

theorem profile_time_dependent_counterexample:
  "map date (achievements (getUserProgressFromDatabase
       \<lparr>nowMs = 1704153599999, nowISO = ''2024-01-01T23:59:59.999Z''\<rparr> ''guest''))
     = [''2024-01-01'']
   \<and> map date (achievements (getUserProgressFromDatabase
       \<lparr>nowMs = 1704153600000, nowISO = ''2024-01-02T00:00:00.000Z''\<rparr> ''guest''))
     = [''2024-01-02'']
   \<and> getUserProgressFromDatabase
         \<lparr>nowMs = 1704153599999, nowISO = ''2024-01-01T23:59:59.999Z''\<rparr> ''guest''
     \<noteq> getUserProgressFromDatabase
         \<lparr>nowMs = 1704153600000, nowISO = ''2024-01-02T00:00:00.000Z''\<rparr> ''guest''"
  by (simp add: getUserProgressFromDatabase_def getUserAchievements_def Let_def today_def
      userHash_def shl_def)

section \<open>The cache\<close>

text \<open>
  The three key families cannot meet: a key of one family is never a key of another, so
  a read, a write or a delete under a key of one family leaves the other two alone.
\<close>

lemma cache_key_families:
  "''modules_'' @ a \<noteq> ''user_progress_'' @ b"
  "''modules_'' @ a \<noteq> ''assessments_'' @ c"
  "''user_progress_'' @ b \<noteq> ''assessments_'' @ c"
  by simp_all

lemma getCachedData_set_same:
  "getCachedData clk' (setCachedData clk k v m) k
     = (if nowMs clk' - nowMs clk < 30 * 60 * 1000 then Some v else None)"
  by (simp add: getCachedData_def setCachedData_def CACHE_DURATION_def)

lemma getCachedData_Some_iff:
  "(getCachedData clk m k = Some v)
     = (\<exists>e. m k = Some e \<and> data e = v \<and> nowMs clk - timestamp e < 30 * 60 * 1000)"
  by (auto simp: getCachedData_def CACHE_DURATION_def split: option.splits)

lemma getCachedData_None_iff:
  "(getCachedData clk m k = None)
     = (m k = None \<or> (\<exists>e. m k = Some e \<and> 30 * 60 * 1000 \<le> nowMs clk - timestamp e))"
  by (auto simp: getCachedData_def CACHE_DURATION_def split: option.splits)

text \<open>
  C5. A read of key \<open>k\<close> after a write of \<open>v\<close> under \<open>k\<close> returns \<open>v\<close> exactly when less
  than 30 minutes (1800000 ms) lie between the two clock readings, whatever the store
  held before, and so it returns \<open>v\<close> at the clock reading of the write itself. On any
  store, a read returns \<open>v\<close> exactly when the store has an entry for \<open>k\<close> that holds \<open>v\<close>
  and is younger than 30 minutes, and returns \<open>null\<close> exactly when there is no entry or
  the entry is 30 minutes old or older. The read is a function of the store and does not
  return a new one: it deletes nothing.
\<close>

theorem cache_read:
  "getCachedData clk' (setCachedData clk k v m) k
     = (if nowMs clk' - nowMs clk < 30 * 60 * 1000 then Some v else None)
   \<and> getCachedData clk (setCachedData clk k v m) k = Some v
   \<and> (getCachedData clk m k = Some v)
       = (\<exists>e. m k = Some e \<and> data e = v \<and> nowMs clk - timestamp e < 30 * 60 * 1000)
   \<and> (getCachedData clk m k = None)
       = (m k = None \<or> (\<exists>e. m k = Some e \<and> 30 * 60 * 1000 \<le> nowMs clk - timestamp e))"
  using getCachedData_set_same [of clk' clk k v m] getCachedData_set_same [of clk clk k v m]
    getCachedData_Some_iff [of clk m k v] getCachedData_None_iff [of clk m k]
  by simp

theorem cache_read_witness:
  "getCachedData \<lparr>nowMs = 1704068999999, nowISO = ''2024-01-01T00:29:59.999Z''\<rparr>
     (setCachedData \<lparr>nowMs = 1704067200000, nowISO = ''2024-01-01T00:00:00.000Z''\<rparr>
        ''user_progress_guest'' (7 :: nat) Map.empty) ''user_progress_guest'' = Some 7
   \<and> getCachedData \<lparr>nowMs = 1704069000000, nowISO = ''2024-01-01T00:30:00.000Z''\<rparr>
     (setCachedData \<lparr>nowMs = 1704067200000, nowISO = ''2024-01-01T00:00:00.000Z''\<rparr>
        ''user_progress_guest'' (7 :: nat) Map.empty) ''user_progress_guest'' = None
   \<and> getCachedData \<lparr>nowMs = 1704067200000, nowISO = ''2024-01-01T00:00:00.000Z''\<rparr>
     (setCachedData \<lparr>nowMs = 1704067200000, nowISO = ''2024-01-01T00:00:00.000Z''\<rparr>
        ''user_progress_guest'' (7 :: nat) Map.empty) ''user_progress_guest'' = Some 7"
  using cache_read [of "\<lparr>nowMs = 1704068999999, nowISO = ''2024-01-01T00:29:59.999Z''\<rparr>"
      "\<lparr>nowMs = 1704067200000, nowISO = ''2024-01-01T00:00:00.000Z''\<rparr>"
      "''user_progress_guest''" "7 :: nat" Map.empty]
    cache_read [of "\<lparr>nowMs = 1704069000000, nowISO = ''2024-01-01T00:30:00.000Z''\<rparr>"
      "\<lparr>nowMs = 1704067200000, nowISO = ''2024-01-01T00:00:00.000Z''\<rparr>"
      "''user_progress_guest''" "7 :: nat" Map.empty]
  by simp

section \<open>The module catalog\<close>

lemma length_baseModules: "length baseModules = 5"
  by (simp add: baseModules_def)

lemma filter_unknown_level:
  "l \<notin> {''beginner'', ''intermediate'', ''advanced''}
   \<Longrightarrow> filter (\<lambda>m. mod_difficulty m = l) baseModules = []"
  by (auto simp: baseModules_def)

lemma generateDynamicModules_levels:
  "generateDynamicModules lvl uid =
     (if lvl = None \<or> lvl = Some [] \<or> lvl = Some ''all'' then baseModules
      else filter (\<lambda>m. Some (mod_difficulty m) = lvl) baseModules)"
  by (auto simp: generateDynamicModules_def split: option.splits)

lemma generateDynamicModules_uid:
  "generateDynamicModules lvl u = generateDynamicModules lvl u'"
  by (simp add: generateDynamicModules_def)

lemma GET_modules:
  "actionParam q = Some ''modules''
   \<Longrightarrow> fst (GET clk q cache)
       = ok (ModulesBody
              (fst (fetchLearningModules clk (Some (orElse (levelParam q) ''all''))
                      (Some (orElse (userIdParam q) ''guest'')) cache))
              (length (fst (fetchLearningModules clk (Some (orElse (levelParam q) ''all''))
                      (Some (orElse (userIdParam q) ''guest'')) cache)))
              [''fundamentals'', ''analysis'', ''monitoring'', ''precision-agriculture'',
               ''sustainability'']
              False (nowISO clk))"
  by (simp add: GET_def Let_def split: prod.splits)

subsection \<open>Where the cached module lists come from\<close>

lemma storedFor_mono: "storedFor P cache \<Longrightarrow> P \<subseteq> P' \<Longrightarrow> storedFor P' cache"
  unfolding storedFor_def by blast

lemma storedFor_same_entries:
  "storedFor P cache \<Longrightarrow> moduleEntries cache' = moduleEntries cache \<Longrightarrow> storedFor P cache'"
  by (simp add: storedFor_def)

lemma storedFor_delete:
  "storedFor P cache \<Longrightarrow> moduleEntries cache' = (moduleEntries cache)(k := None)
   \<Longrightarrow> storedFor P cache'"
  by (simp add: storedFor_def)

lemma orElse_nonempty: "d \<noteq> [] \<Longrightarrow> orElse v d \<noteq> []"
  by (simp add: orElse_def split: option.splits)

lemma orElse_Some_nonempty: "s \<noteq> [] \<Longrightarrow> orElse (Some s) d = s"
  by (simp add: orElse_def)

text \<open>A hit returns the stored list and leaves the cache; a miss generates and stores.\<close>

lemma fetchLearningModules_key:
  assumes "l \<noteq> []" and "u \<noteq> []"
  shows "fetchLearningModules clk (Some l) (Some u) cache =
     (case getCachedData clk (moduleEntries cache) (modulesKey l u) of
        Some cached \<Rightarrow> (cached, cache)
      | None \<Rightarrow>
          (generateDynamicModules (Some l) (Some u),
           cache\<lparr>moduleEntries :=
             (moduleEntries cache)(modulesKey l u \<mapsto>
                \<lparr>data = generateDynamicModules (Some l) (Some u), timestamp = nowMs clk\<rparr>)\<rparr>))"
  using assms
  by (simp add: fetchLearningModules_def Let_def orElse_Some_nonempty setCachedData_def
      modulesKey_def split: option.splits)

lemma storedFor_fetchLearningModules:
  assumes inv: "storedFor P cache" and "l \<noteq> []" and "u \<noteq> []" and mem: "(l, u) \<in> P"
  shows "storedFor P (snd (fetchLearningModules clk (Some l) (Some u) cache))"
proof (cases "getCachedData clk (moduleEntries cache) (modulesKey l u)")
  case (Some cached)
  then show ?thesis
    using inv by (simp add: fetchLearningModules_key [OF assms(2,3)])
next
  case None
  show ?thesis
    unfolding storedFor_def
  proof (intro allI impI)
    fix k e
    assume "moduleEntries (snd (fetchLearningModules clk (Some l) (Some u) cache)) k = Some e"
    then have e: "((moduleEntries cache)(modulesKey l u \<mapsto>
        \<lparr>data = generateDynamicModules (Some l) (Some u), timestamp = nowMs clk\<rparr>)) k = Some e"
      using None by (simp add: fetchLearningModules_key [OF assms(2,3)])
    show "\<exists>l u. (l, u) \<in> P \<and> k = modulesKey l u
        \<and> data e = generateDynamicModules (Some l) (Some u)"
    proof (cases "k = modulesKey l u")
      case True
      with e have "data e = generateDynamicModules (Some l) (Some u)"
        by auto
      with True mem show ?thesis by blast
    next
      case False
      with e have "moduleEntries cache k = Some e"
        by simp
      with inv show ?thesis
        unfolding storedFor_def by blast
    qed
  qed
qed

lemma fetchUserProgress_entries:
  "moduleEntries (snd (fetchUserProgress clk uid cache)) = moduleEntries cache"
  by (simp add: fetchUserProgress_def Let_def split: option.splits)

lemma fetchAssessments_entries:
  "moduleEntries (snd (fetchAssessments clk uid cache)) = moduleEntries cache"
  by (simp add: fetchAssessments_def Let_def split: option.splits)

lemma generateModuleContent_entries:
  "moduleEntries (snd (generateModuleContent clk mid uid cache)) = moduleEntries cache"
  using fetchUserProgress_entries [of clk uid cache]
  by (cases "fetchUserProgress clk uid cache") (simp add: generateModuleContent_def)

lemma storedFor_GET:
  assumes inv: "storedFor P cache" and sub: "set (fetchedFor (GetRequest clk q)) \<subseteq> P"
  shows "storedFor P (snd (GET clk q cache))"
proof -
  let ?u = "orElse (userIdParam q) ''guest''"
  have u: "?u \<noteq> []"
    by (rule orElse_nonempty) simp
  consider (modules) "actionParam q = Some ''modules''"
    | (progress) "actionParam q = Some ''progress''"
    | (content) "actionParam q = Some ''module-content''"
    | (assessments) "actionParam q = Some ''assessments''"
    | (leaderboard) "actionParam q = Some ''leaderboard''"
    | (other) "actionParam q \<notin> {Some ''modules'', Some ''progress'', Some ''module-content'',
        Some ''assessments'', Some ''leaderboard''}"
    by blast
  then show ?thesis
  proof cases
    case modules
    let ?l = "orElse (levelParam q) ''all''"
    have l: "?l \<noteq> []"
      by (rule orElse_nonempty) simp
    have "(?l, ?u) \<in> P"
      using sub modules by simp
    from storedFor_fetchLearningModules [OF inv l u this, of clk]
    show ?thesis
      using modules by (simp add: GET_def Let_def case_prod_beta)
  next
    case progress
    then have "moduleEntries (snd (GET clk q cache)) = moduleEntries cache"
      using fetchUserProgress_entries [of clk ?u cache]
      by (simp add: GET_def Let_def case_prod_beta)
    with inv show ?thesis by (rule storedFor_same_entries)
  next
    case content
    show ?thesis
    proof (cases "orElse (moduleIdParam q) [] = []")
      case True
      then have "snd (GET clk q cache) = cache"
        using content by (simp add: GET_def Let_def orElse_def split: option.splits)
      with inv show ?thesis by simp
    next
      case False
      then obtain mid where mid: "moduleIdParam q = Some mid" "mid \<noteq> []"
        by (auto simp: orElse_def split: option.splits if_splits)
      let ?c1 = "snd (fetchLearningModules clk (Some ''all'') (Some ?u) cache)"
      have "(''all'', ?u) \<in> P"
        using sub content False by simp
      then have c1: "storedFor P ?c1"
        using inv u by (intro storedFor_fetchLearningModules) simp_all
      have "moduleEntries (snd (GET clk q cache)) = moduleEntries ?c1"
        using content mid
        by (simp add: GET_def Let_def fetchUserProgress_entries generateModuleContent_entries
            case_prod_beta split: option.splits)
      with c1 show ?thesis by (rule storedFor_same_entries)
    qed
  next
    case assessments
    then have "moduleEntries (snd (GET clk q cache)) = moduleEntries cache"
      using fetchAssessments_entries [of clk "Some ?u" cache]
      by (simp add: GET_def Let_def case_prod_beta)
    with inv show ?thesis by (rule storedFor_same_entries)
  next
    case leaderboard
    then have "moduleEntries (snd (GET clk q cache)) = moduleEntries cache"
      using fetchUserProgress_entries [of clk ?u cache]
      by (simp add: GET_def Let_def case_prod_beta)
    with inv show ?thesis by (rule storedFor_same_entries)
  next
    case other
    then have "snd (GET clk q cache) = cache"
      by (simp add: GET_def Let_def)
    with inv show ?thesis by simp
  qed
qed

text \<open>\<open>POST\<close> stores no module list: it leaves the module entries or deletes one key.\<close>

lemma POST_entries:
  "moduleEntries (snd (POST clk rnd q parsed cache)) = moduleEntries cache
   \<or> moduleEntries (snd (POST clk rnd q parsed cache))
       = (moduleEntries cache)((''modules_all_'' @ orElse (userIdParam q) ''guest'') := None)"
  by (simp add: POST_def Let_def updateModuleProgress_def awardXP_def fetchUserProgress_entries
      case_prod_beta split: option.splits)

lemma storedFor_POST:
  assumes "storedFor P cache"
  shows "storedFor P (snd (POST clk rnd q parsed cache))"
  using POST_entries [of clk rnd q parsed cache] assms
  by (auto intro: storedFor_same_entries storedFor_delete)

lemma storedFor_handle:
  assumes "storedFor P cache" and "set (fetchedFor r) \<subseteq> P"
  shows "storedFor P (snd (handle r cache))"
  using assms by (cases r) (simp_all add: storedFor_GET storedFor_POST)

lemma serve_snoc: "serve (rs @ [r]) = snd (handle r (serve rs))"
  by (simp add: serve_def)

text \<open>
  Whatever requests a process has answered, every module list in its cache was stored
  for the level and user of one of them.
\<close>

lemma storedFor_serve: "storedFor (\<Union>r \<in> set rs. set (fetchedFor r)) (serve rs)"
proof (induction rs rule: rev_induct)
  case Nil
  show ?case by (simp add: serve_def storedFor_def emptyCache_def)
next
  case (snoc r rs)
  have "storedFor (\<Union>r \<in> set (rs @ [r]). set (fetchedFor r)) (serve rs)"
    using snoc.IH by (rule storedFor_mono) auto
  then show ?case
    unfolding serve_snoc by (rule storedFor_handle) auto
qed

text \<open>
  A fetch, hit or miss, returns the list generated for its level when no pair with
  another level shares its key.
\<close>

lemma fetchLearningModules_stored:
  assumes inv: "storedFor P cache" and l: "l \<noteq> []" and u: "u \<noteq> []"
    and nocollision: "\<forall>(l', u') \<in> P. modulesKey l' u' = modulesKey l u \<longrightarrow> l' = l"
  shows "fst (fetchLearningModules clk (Some l) (Some u) cache)
         = generateDynamicModules (Some l) (Some u)"
proof (cases "getCachedData clk (moduleEntries cache) (modulesKey l u)")
  case None
  then show ?thesis
    by (simp add: fetchLearningModules_key [OF l u])
next
  case (Some cached)
  then obtain e where e: "moduleEntries cache (modulesKey l u) = Some e" "data e = cached"
    by (auto simp: getCachedData_Some_iff)
  from inv e(1) obtain l' u' where p: "(l', u') \<in> P" "modulesKey l u = modulesKey l' u'"
    "data e = generateDynamicModules (Some l') (Some u')"
    unfolding storedFor_def by blast
  from nocollision p(1,2) have "l' = l"
    by auto
  with p(3) e(2) have "cached = generateDynamicModules (Some l) (Some u)"
    using generateDynamicModules_uid [of "Some l" "Some u'" "Some u"] by simp
  with Some show ?thesis
    by (simp add: fetchLearningModules_key [OF l u])
qed

text \<open>
  C6, as amended. Take a process that started with an empty cache and has answered any
  requests, and a \<open>modules\<close> request such that none of the earlier requests fetched
  modules of another level under the cache key \<open>modules_<level>_<userId>\<close> of this
  request. The request is answered, from the cache or not, with status 200, a module list
  and the length of that list as \<open>totalModules\<close>. With the level absent, empty or \<open>all\<close>
  the list is the five seeded modules and \<open>totalModules\<close> is 5; with the level
  \<open>beginner\<close>, \<open>intermediate\<close> or \<open>advanced\<close> it is the seeded modules of that difficulty;
  with any other level it is empty.
\<close>

theorem modules_request:
  assumes act: "actionParam q = Some ''modules''"
    and nocollision: "\<forall>r \<in> set rs. \<forall>(l, u) \<in> set (fetchedFor r).
        modulesKey l u
          = modulesKey (orElse (levelParam q) ''all'') (orElse (userIdParam q) ''guest'')
        \<longrightarrow> l = orElse (levelParam q) ''all''"
  shows "\<exists>ms. fst (GET clk q (serve rs))
           = \<lparr>status = 200,
              payload = ModulesBody ms (length ms)
                [''fundamentals'', ''analysis'', ''monitoring'', ''precision-agriculture'',
                 ''sustainability''] False (nowISO clk)\<rparr>
         \<and> (levelParam q = None \<or> levelParam q = Some [] \<or> levelParam q = Some ''all''
              \<longrightarrow> ms = baseModules \<and> length ms = 5)
         \<and> (levelParam q = Some ''beginner'' \<or> levelParam q = Some ''intermediate''
              \<or> levelParam q = Some ''advanced''
              \<longrightarrow> ms = filter (\<lambda>m. Some (mod_difficulty m) = levelParam q) baseModules)
         \<and> (levelParam q \<notin> {None, Some [], Some ''all'', Some ''beginner'',
                               Some ''intermediate'', Some ''advanced''}
              \<longrightarrow> ms = [])"
proof -
  let ?l = "orElse (levelParam q) ''all''"
  let ?u = "orElse (userIdParam q) ''guest''"
  let ?ms = "generateDynamicModules (Some ?l) (Some ?u)"
  have l: "?l \<noteq> []" and u: "?u \<noteq> []"
    by (rule orElse_nonempty, simp)+
  have nc: "\<forall>(l', u') \<in> (\<Union>r \<in> set rs. set (fetchedFor r)).
      modulesKey l' u' = modulesKey ?l ?u \<longrightarrow> l' = ?l"
    using nocollision by blast
  have "fst (fetchLearningModules clk (Some ?l) (Some ?u) (serve rs)) = ?ms"
    by (rule fetchLearningModules_stored [OF storedFor_serve l u nc])
  then have resp: "fst (GET clk q (serve rs))
      = \<lparr>status = 200,
         payload = ModulesBody ?ms (length ?ms)
           [''fundamentals'', ''analysis'', ''monitoring'', ''precision-agriculture'',
            ''sustainability''] False (nowISO clk)\<rparr>"
    by (simp add: GET_modules [OF act] ok_def)
  have all: "levelParam q = None \<or> levelParam q = Some [] \<or> levelParam q = Some ''all''
      \<longrightarrow> ?ms = baseModules \<and> length ?ms = 5"
    by (auto simp: generateDynamicModules_levels orElse_def length_baseModules)
  have known: "levelParam q = Some ''beginner'' \<or> levelParam q = Some ''intermediate''
      \<or> levelParam q = Some ''advanced''
      \<longrightarrow> ?ms = filter (\<lambda>m. Some (mod_difficulty m) = levelParam q) baseModules"
    by (auto simp: generateDynamicModules_levels orElse_def)
  have other: "levelParam q \<notin> {None, Some [], Some ''all'', Some ''beginner'',
      Some ''intermediate'', Some ''advanced''} \<longrightarrow> ?ms = []"
  proof
    assume out: "levelParam q \<notin> {None, Some [], Some ''all'', Some ''beginner'',
      Some ''intermediate'', Some ''advanced''}"
    then obtain l where l: "levelParam q = Some l" "l \<noteq> []" "l \<noteq> ''all''"
      "l \<notin> {''beginner'', ''intermediate'', ''advanced''}"
      by (cases "levelParam q") auto
    then show "?ms = []"
      using filter_unknown_level [of l]
      by (simp add: generateDynamicModules_def orElse_def)
  qed
  from resp all known other show ?thesis by blast
qed

text \<open>
  A \<open>modules\<close> request for the level \<open>intermediate\<close>, a minute after the same request
  without a user id: the only earlier fetch is for the same level, the request is a cache
  hit, and it is answered with the two intermediate modules.
\<close>

theorem modules_request_witness:
  "fetchedFor (GetRequest \<lparr>nowMs = 1704067200000, nowISO = ''2024-01-01T00:00:00.000Z''\<rparr>
      \<lparr>actionParam = Some ''modules'', moduleIdParam = None, userIdParam = None,
       levelParam = Some ''intermediate''\<rparr>) = [(''intermediate'', ''guest'')]
   \<and> getCachedData \<lparr>nowMs = 1704067260000, nowISO = ''2024-01-01T00:01:00.000Z''\<rparr>
        (moduleEntries
          (serve [GetRequest \<lparr>nowMs = 1704067200000, nowISO = ''2024-01-01T00:00:00.000Z''\<rparr>
             \<lparr>actionParam = Some ''modules'', moduleIdParam = None, userIdParam = None,
              levelParam = Some ''intermediate''\<rparr>]))
        ''modules_intermediate_guest'' \<noteq> None
   \<and> (\<exists>ms. fst (GET \<lparr>nowMs = 1704067260000, nowISO = ''2024-01-01T00:01:00.000Z''\<rparr>
               \<lparr>actionParam = Some ''modules'', moduleIdParam = None,
                userIdParam = Some ''guest'', levelParam = Some ''intermediate''\<rparr>
               (serve [GetRequest
                  \<lparr>nowMs = 1704067200000, nowISO = ''2024-01-01T00:00:00.000Z''\<rparr>
                  \<lparr>actionParam = Some ''modules'', moduleIdParam = None, userIdParam = None,
                   levelParam = Some ''intermediate''\<rparr>]))
           = \<lparr>status = 200,
              payload = ModulesBody ms 2
                [''fundamentals'', ''analysis'', ''monitoring'', ''precision-agriculture'',
                 ''sustainability''] False ''2024-01-01T00:01:00.000Z''\<rparr>
         \<and> map mod_id ms = [''satellite-imagery'', ''ndvi-analysis''])"
proof -
  let ?start = "\<lparr>nowMs = 1704067200000, nowISO = ''2024-01-01T00:00:00.000Z''\<rparr>"
  let ?clk = "\<lparr>nowMs = 1704067260000, nowISO = ''2024-01-01T00:01:00.000Z''\<rparr>"
  let ?first = "\<lparr>actionParam = Some ''modules'', moduleIdParam = None, userIdParam = None,
       levelParam = Some ''intermediate''\<rparr>"
  let ?q = "\<lparr>actionParam = Some ''modules'', moduleIdParam = None,
       userIdParam = Some ''guest'', levelParam = Some ''intermediate''\<rparr>"
  let ?rs = "[GetRequest ?start ?first]"
  have act: "actionParam ?q = Some ''modules''"
    by simp
  have fetched: "fetchedFor (GetRequest ?start ?first) = [(''intermediate'', ''guest'')]"
    by (simp add: orElse_def)
  have nocollision: "\<forall>r \<in> set ?rs. \<forall>(l, u) \<in> set (fetchedFor r).
        modulesKey l u
          = modulesKey (orElse (levelParam ?q) ''all'') (orElse (userIdParam ?q) ''guest'')
        \<longrightarrow> l = orElse (levelParam ?q) ''all''"
    by (simp add: orElse_def)
  have hit: "getCachedData ?clk (moduleEntries (serve ?rs)) ''modules_intermediate_guest''
      \<noteq> None"
    by (simp add: serve_def GET_def Let_def fetchLearningModules_def getCachedData_def
        setCachedData_def emptyCache_def orElse_def CACHE_DURATION_def)
  from modules_request [OF act nocollision]
  obtain ms where r: "fst (GET ?clk ?q (serve ?rs))
           = \<lparr>status = 200,
              payload = ModulesBody ms (length ms)
                [''fundamentals'', ''analysis'', ''monitoring'', ''precision-agriculture'',
                 ''sustainability''] False (nowISO ?clk)\<rparr>"
    and ms: "ms = filter (\<lambda>m. Some (mod_difficulty m) = levelParam ?q) baseModules"
    by auto
  have "length ms = 2" and "map mod_id ms = [''satellite-imagery'', ''ndvi-analysis'']"
    by (simp_all add: ms baseModules_def)
  with r fetched hit show ?thesis by simp
qed

text \<open>
  The claim as stated fails for the request \<open>?action=modules&level=\<close> as the first request
  of a process: the level is present and is not \<open>all\<close>, yet the answer is the five seeded
  modules, not the empty list.
\<close>

theorem modules_request_counterexample:
  "levelParam \<lparr>actionParam = Some ''modules'', moduleIdParam = None, userIdParam = None,
               levelParam = Some []\<rparr> \<noteq> None
   \<and> levelParam \<lparr>actionParam = Some ''modules'', moduleIdParam = None, userIdParam = None,
               levelParam = Some []\<rparr> \<noteq> Some ''all''
   \<and> fst (GET \<lparr>nowMs = 1704067200000, nowISO = ''2024-01-01T00:00:00.000Z''\<rparr>
          \<lparr>actionParam = Some ''modules'', moduleIdParam = None, userIdParam = None,
           levelParam = Some []\<rparr> (serve []))
       = \<lparr>status = 200,
          payload = ModulesBody baseModules 5
            [''fundamentals'', ''analysis'', ''monitoring'', ''precision-agriculture'',
             ''sustainability''] False ''2024-01-01T00:00:00.000Z''\<rparr>
   \<and> baseModules \<noteq> []"
  by (simp add: serve_def GET_def Let_def ok_def fetchLearningModules_def getCachedData_def
      emptyCache_def orElse_def generateDynamicModules_def length_baseModules)
    (simp add: baseModules_def)

text \<open>
  Where an earlier request did fetch another level under the same key, a cache hit answers
  with the list of that request. The key joins level and user id with \<open>_\<close>, so level
  \<open>all_x\<close> of user \<open>y\<close> and level \<open>all\<close> of user \<open>x_y\<close> share the key \<open>modules_all_x_y\<close>:
  after the first request has cached its empty list, the second is answered with it.
\<close>

lemma modules_key_collision:
  "modulesKey ''all_x'' ''y'' = modulesKey ''all'' ''x_y''
   \<and> fst (GET \<lparr>nowMs = 1704067260000, nowISO = ''2024-01-01T00:01:00.000Z''\<rparr>
        \<lparr>actionParam = Some ''modules'', moduleIdParam = None, userIdParam = Some ''x_y'',
         levelParam = Some ''all''\<rparr>
        (serve [GetRequest \<lparr>nowMs = 1704067200000, nowISO = ''2024-01-01T00:00:00.000Z''\<rparr>
          \<lparr>actionParam = Some ''modules'', moduleIdParam = None, userIdParam = Some ''y'',
           levelParam = Some ''all_x''\<rparr>]))
     = \<lparr>status = 200,
        payload = ModulesBody [] 0
          [''fundamentals'', ''analysis'', ''monitoring'', ''precision-agriculture'',
           ''sustainability''] False ''2024-01-01T00:01:00.000Z''\<rparr>"
  by (simp add: modulesKey_def serve_def GET_def Let_def ok_def fetchLearningModules_def
      getCachedData_def setCachedData_def emptyCache_def orElse_def generateDynamicModules_def
      baseModules_def CACHE_DURATION_def)

section \<open>The request handlers\<close>




text \<open>
  C9. A \<open>GET\<close> with the action \<open>modules\<close> or \<open>progress\<close> is answered with status 200 and
  with \<open>cache.cached\<close> false, whatever the cache holds, and so also when the data comes
  from the cache.
\<close>

theorem cached_flag_false:
  "actionParam q = Some ''modules'' \<or> actionParam q = Some ''progress''
   \<Longrightarrow> status (fst (GET clk q cache)) = 200
       \<and> cachedFlag (payload (fst (GET clk q cache))) = Some False"
  by (auto simp: GET_def Let_def ok_def split: prod.splits)

text \<open>The second of two \<open>progress\<close> requests a minute apart is a cache hit.\<close>

theorem cached_flag_false_witness:
  "getCachedData \<lparr>nowMs = 1704067260000, nowISO = ''2024-01-01T00:01:00.000Z''\<rparr>
      (progressEntries
        (snd (GET \<lparr>nowMs = 1704067200000, nowISO = ''2024-01-01T00:00:00.000Z''\<rparr>
           \<lparr>actionParam = Some ''progress'', moduleIdParam = None,
            userIdParam = Some ''guest'', levelParam = None\<rparr> emptyCache)))
      ''user_progress_guest'' \<noteq> None
   \<and> status (fst (GET \<lparr>nowMs = 1704067260000, nowISO = ''2024-01-01T00:01:00.000Z''\<rparr>
        \<lparr>actionParam = Some ''progress'', moduleIdParam = None,
         userIdParam = Some ''guest'', levelParam = None\<rparr>
        (snd (GET \<lparr>nowMs = 1704067200000, nowISO = ''2024-01-01T00:00:00.000Z''\<rparr>
           \<lparr>actionParam = Some ''progress'', moduleIdParam = None,
            userIdParam = Some ''guest'', levelParam = None\<rparr> emptyCache)))) = 200
   \<and> cachedFlag (payload (fst (GET
        \<lparr>nowMs = 1704067260000, nowISO = ''2024-01-01T00:01:00.000Z''\<rparr>
        \<lparr>actionParam = Some ''progress'', moduleIdParam = None,
         userIdParam = Some ''guest'', levelParam = None\<rparr>
        (snd (GET \<lparr>nowMs = 1704067200000, nowISO = ''2024-01-01T00:00:00.000Z''\<rparr>
           \<lparr>actionParam = Some ''progress'', moduleIdParam = None,
            userIdParam = Some ''guest'', levelParam = None\<rparr> emptyCache))))) = Some False"
proof -
  let ?q = "\<lparr>actionParam = Some ''progress'', moduleIdParam = None,
         userIdParam = Some ''guest'', levelParam = None\<rparr>"
  have act: "actionParam ?q = Some ''modules'' \<or> actionParam ?q = Some ''progress''"
    by simp
  have hit: "getCachedData \<lparr>nowMs = 1704067260000, nowISO = ''2024-01-01T00:01:00.000Z''\<rparr>
      (progressEntries
        (snd (GET \<lparr>nowMs = 1704067200000, nowISO = ''2024-01-01T00:00:00.000Z''\<rparr>
           ?q emptyCache)))
      ''user_progress_guest'' \<noteq> None"
    by (simp add: GET_def Let_def fetchUserProgress_def getCachedData_def setCachedData_def
        emptyCache_def orElse_def CACHE_DURATION_def)
  from hit cached_flag_false [OF act] show ?thesis
    by simp
qed

lemma GET_params:
  assumes "actionParam q = actionParam q'" and "moduleIdParam q = moduleIdParam q'"
    and "levelParam q = levelParam q'"
    and "orElse (userIdParam q) ''guest'' = orElse (userIdParam q') ''guest''"
  shows "GET clk q cache = GET clk q' cache"
  by (simp only: GET_def assms)

lemma POST_params:
  assumes "orElse (userIdParam q) ''guest'' = orElse (userIdParam q') ''guest''"
  shows "POST clk rnd q parsed cache = POST clk rnd q' parsed cache"
  by (simp only: POST_def assms)

lemma orElse_guest:
  "userIdParam q = None \<or> userIdParam q = Some []
   \<Longrightarrow> orElse (userIdParam q) ''guest''
       = orElse (userIdParam (q\<lparr>userIdParam := Some ''guest''\<rparr>)) ''guest''"
  by (auto simp: orElse_def)

text \<open>
  C10. A \<open>GET\<close> or \<open>POST\<close> whose \<open>userId\<close> parameter is absent or empty returns the same
  response and the same cache as the request that differs from it only in carrying the
  \<open>userId\<close> \<open>guest\<close>, from the same cache, at the same clock reading and, for
  \<open>POST\<close>, with the same body and the same random number.
\<close>

theorem guest_default:
  "userIdParam q = None \<or> userIdParam q = Some []
   \<Longrightarrow> GET clk q cache = GET clk (q\<lparr>userIdParam := Some ''guest''\<rparr>) cache
       \<and> POST clk rnd q parsed cache
           = POST clk rnd (q\<lparr>userIdParam := Some ''guest''\<rparr>) parsed cache"
proof -
  assume absent: "userIdParam q = None \<or> userIdParam q = Some []"
  have "GET clk q cache = GET clk (q\<lparr>userIdParam := Some ''guest''\<rparr>) cache"
    by (rule GET_params) (simp_all add: orElse_guest [OF absent])
  moreover have "POST clk rnd q parsed cache
      = POST clk rnd (q\<lparr>userIdParam := Some ''guest''\<rparr>) parsed cache"
    by (rule POST_params) (rule orElse_guest [OF absent])
  ultimately show ?thesis ..
qed

theorem guest_default_witness:
  "GET \<lparr>nowMs = 1704067200000, nowISO = ''2024-01-01T00:00:00.000Z''\<rparr>
      \<lparr>actionParam = Some ''progress'', moduleIdParam = None, userIdParam = None,
       levelParam = None\<rparr> emptyCache
     = GET \<lparr>nowMs = 1704067200000, nowISO = ''2024-01-01T00:00:00.000Z''\<rparr>
      \<lparr>actionParam = Some ''progress'', moduleIdParam = None, userIdParam = Some ''guest'',
       levelParam = None\<rparr> emptyCache
   \<and> POST \<lparr>nowMs = 1704067200000, nowISO = ''2024-01-01T00:00:00.000Z''\<rparr> 0
      \<lparr>actionParam = None, moduleIdParam = None, userIdParam = Some [],
       levelParam = None\<rparr>
      (Some (JObj [(''action'', JStr ''complete-module''), (''moduleId'', JStr ''ndvi-analysis'')]))
      emptyCache
     = POST \<lparr>nowMs = 1704067200000, nowISO = ''2024-01-01T00:00:00.000Z''\<rparr> 0
      \<lparr>actionParam = None, moduleIdParam = None, userIdParam = Some ''guest'',
       levelParam = None\<rparr>
      (Some (JObj [(''action'', JStr ''complete-module''), (''moduleId'', JStr ''ndvi-analysis'')]))
      emptyCache"
  using
    guest_default [of "\<lparr>actionParam = Some ''progress'', moduleIdParam = None,
       userIdParam = None, levelParam = None\<rparr>"
       "\<lparr>nowMs = 1704067200000, nowISO = ''2024-01-01T00:00:00.000Z''\<rparr>" emptyCache]
    guest_default [of "\<lparr>actionParam = None, moduleIdParam = None,
       userIdParam = Some [], levelParam = None\<rparr>"
       "\<lparr>nowMs = 1704067200000, nowISO = ''2024-01-01T00:00:00.000Z''\<rparr>" emptyCache 0
       "Some (JObj [(''action'', JStr ''complete-module''), (''moduleId'', JStr ''ndvi-analysis'')])"]
  by simp

subsection \<open>Starting a module\<close>

text \<open>
  What \<open>start-module\<close> does with a truthy \<open>moduleId\<close>: it answers with 50 XP and removes
  two keys of the user, \<open>user_progress_<userId>\<close> and \<open>modules_all_<userId>\<close>; every
  other entry stays as it was.
\<close>

lemma POST_start_module:
  assumes "b \<noteq> JNull" and "getProp b ''action'' = Some (JStr ''start-module'')"
    and "truthy (getProp b ''moduleId'')"
  shows "POST clk rnd q (Some b) cache
     = (\<lparr>status = 200, payload = ModuleStartedBody ''Module started successfully'' 50\<rparr>,
        cache\<lparr>progressEntries :=
                (progressEntries cache)
                  ((''user_progress_'' @ orElse (userIdParam q) ''guest'') := None),
              moduleEntries :=
                (moduleEntries cache)
                  ((''modules_all_'' @ orElse (userIdParam q) ''guest'') := None)\<rparr>)"
  using assms
  by (simp add: POST_def Let_def ok_def updateModuleProgress_def awardXP_def)

text \<open>The next progress read of that user recomputes the profile.\<close>

lemma start_module_invalidates:
  assumes "b \<noteq> JNull" and "getProp b ''action'' = Some (JStr ''start-module'')"
    and "truthy (getProp b ''moduleId'')"
  shows "fst (fetchUserProgress clk' (orElse (userIdParam q) ''guest'')
                (snd (POST clk rnd q (Some b) cache)))
         = getUserProgressFromDatabase clk' (orElse (userIdParam q) ''guest'')"
  by (simp add: POST_start_module [OF assms] fetchUserProgress_def getCachedData_def Let_def)



subsection \<open>Submitting an assessment\<close>

text \<open>
  What \<open>submit-assessment\<close> answers with a truthy \<open>assessmentId\<close> and truthy \<open>answers\<close>:
  the score \<open>floor (rnd * 40) + 60\<close> on doubles, 200 XP for a score above 70 and 100 XP
  otherwise,
  and \<open>passed\<close> for a score of 70 or more.
\<close>

lemma POST_submit_assessment:
  assumes "b \<noteq> JNull" and "getProp b ''action'' = Some (JStr ''submit-assessment'')"
    and "truthy (getProp b ''assessmentId'')" and "truthy (getProp b ''answers'')"
  shows "\<exists>total. fst (POST clk rnd q (Some b) cache)
           = \<lparr>status = 200,
              payload = AssessmentResultBody (\<lfloor>doubleMul rnd 40\<rfloor> + 60)
                (if \<lfloor>doubleMul rnd 40\<rfloor> + 60 > 70 then 200 else 100)
                (\<lfloor>doubleMul rnd 40\<rfloor> + 60 \<ge> 70) total\<rparr>"
  using assms by (simp add: POST_def Let_def ok_def split: prod.splits)

text \<open>The product of the doubles 0.25 and 40 is exact.\<close>

lemma doubleMul_quarter_40: "doubleMul (1 / 4) 40 = 10"
  by (simp add: doubleMul_def roundDouble_def binExp.simps pow2_def roundHalfEven_def Let_def)

text \<open>
  Just below a multiple of \<open>1 / 40\<close> the rounded product can reach the next integer: for
  the double \<open>0.8999999999999999\<close>, the exact product lies below 36 and its floor is 35,
  while the product of doubles is 36.
\<close>

lemma doubleMul_rounds_up:
  "\<lfloor>doubleMul (2026619832316723 / 2 ^ 51) 40\<rfloor> = 36
   \<and> \<lfloor>2026619832316723 / 2 ^ 51 * 40 :: real\<rfloor> = 35"
  by (simp add: doubleMul_def roundDouble_def binExp.simps pow2_def roundHalfEven_def Let_def)

text \<open>
  For a random number in \<open>[0, 1)\<close> the rounded product stays within 0 and 40, so the
  score lies between 60 and 100.
\<close>

lemma binExp_upper:
  "x < 2 ^ k \<Longrightarrow> binExp fuel x \<le> max 0 (int k - 1)"
proof (induction fuel arbitrary: x k)
  case 0
  show ?case by (simp add: binExp.simps)
next
  case (Suc fuel)
  show ?case
  proof (cases "2 \<le> x")
    case True
    with Suc.prems have "2 ^ 1 < (2::real) ^ k"
      by simp
    then have k: "1 < k"
      by (simp only: power_strict_increasing_iff)
    then obtain j where j: "k = Suc j"
      by (cases k) auto
    with Suc.prems have "x / 2 < 2 ^ j"
      by simp
    from Suc.IH [OF this] k j True show ?thesis
      by (simp add: binExp.simps [of "Suc fuel"])
  next
    case False
    show ?thesis
    proof (cases "x < 1")
      case True
      then have "x * 2 < 2 ^ 1"
        by simp
      from Suc.IH [OF this] True False show ?thesis
        by (simp add: binExp.simps [of "Suc fuel"])
    next
      case False
      with \<open>\<not> 2 \<le> x\<close> show ?thesis
        by (simp add: binExp.simps [of "Suc fuel"])
    qed
  qed
qed

lemma roundHalfEven_le:
  assumes "y \<le> of_int n"
  shows "roundHalfEven y \<le> n"
proof -
  have f: "\<lfloor>y\<rfloor> \<le> n"
    using assms by (simp add: floor_le_iff)
  show ?thesis
  proof (cases "\<lfloor>y\<rfloor> = n")
    case True
    then have "y - of_int \<lfloor>y\<rfloor> \<le> 0"
      using assms by simp
    then show ?thesis
      using True by (simp add: roundHalfEven_def Let_def)
  next
    case False
    with f have "\<lfloor>y\<rfloor> + 1 \<le> n"
      by simp
    then show ?thesis
      using f by (simp add: roundHalfEven_def Let_def)
  qed
qed

lemma roundHalfEven_nonneg: "0 \<le> y \<Longrightarrow> 0 \<le> roundHalfEven y"
  by (simp add: roundHalfEven_def Let_def)

lemma pow2_pos: "0 < pow2 k"
  by (simp add: pow2_def)

lemma roundDouble_range:
  assumes "0 \<le> x" and "x < 40"
  shows "0 \<le> roundDouble x \<and> roundDouble x \<le> 40"
proof (cases "x = 0")
  case True
  then show ?thesis by (simp add: roundDouble_def)
next
  case False
  with assms have pos: "0 < x" by simp
  define e where "e = max (- 1022) (binExp 1100 \<bar>x\<bar>)"
  define q where "q = pow2 (e - 52)"
  have "x < 2 ^ 6"
    using assms by simp
  from binExp_upper [OF this, of 1100] have e5: "e \<le> 5"
    using pos by (simp add: e_def)
  have q: "0 < q"
    by (simp add: q_def pow2_pos)
  have val: "roundDouble x = of_int (roundHalfEven (x / q)) * q"
    using pos by (simp add: roundDouble_def Let_def e_def q_def)
  have "40 / q = of_int (40 * 2 ^ nat (52 - e))"
    using e5 by (simp add: q_def pow2_def)
  moreover have "x / q \<le> 40 / q"
    using assms q by (simp add: divide_right_mono)
  ultimately have "roundHalfEven (x / q) \<le> 40 * 2 ^ nat (52 - e)"
    by (intro roundHalfEven_le) simp
  then have "real_of_int (roundHalfEven (x / q)) \<le> of_int (40 * 2 ^ nat (52 - e))"
    by (simp only: of_int_le_iff)
  with \<open>40 / q = _\<close> have "of_int (roundHalfEven (x / q)) \<le> 40 / q"
    by simp
  then have up: "of_int (roundHalfEven (x / q)) * q \<le> 40"
    using q by (simp add: pos_le_divide_eq)
  have "0 \<le> roundHalfEven (x / q)"
    using pos q by (intro roundHalfEven_nonneg) simp
  then have "0 \<le> of_int (roundHalfEven (x / q)) * q"
    using q by simp
  with up val show ?thesis by simp
qed

lemma mockScore_range:
  assumes "0 \<le> rnd" and "rnd < 1"
  shows "60 \<le> \<lfloor>doubleMul rnd 40\<rfloor> + 60 \<and> \<lfloor>doubleMul rnd 40\<rfloor> + 60 \<le> 100"
proof -
  have "0 \<le> rnd * 40" and "rnd * 40 < 40"
    using assms by simp_all
  from roundDouble_range [OF this]
  have "0 \<le> \<lfloor>doubleMul rnd 40\<rfloor>" and "\<lfloor>doubleMul rnd 40\<rfloor> \<le> 40"
    by (simp_all add: doubleMul_def floor_le_iff le_floor_iff)
  then show ?thesis by simp
qed

text \<open>
  C1, at the input where the code departs from it. When \<open>Math.random()\<close> returns 0.25
  the score is 70: \<open>passed\<close> is true, and the XP earned is 100, not 200.
\<close>

theorem submit_assessment_at_70:
  assumes "b \<noteq> JNull" and "getProp b ''action'' = Some (JStr ''submit-assessment'')"
    and "truthy (getProp b ''assessmentId'')" and "truthy (getProp b ''answers'')"
  shows "\<exists>total. fst (POST clk (1 / 4) q (Some b) cache)
           = \<lparr>status = 200, payload = AssessmentResultBody 70 100 True total\<rparr>"
  using POST_submit_assessment [OF assms, of clk "1 / 4" q cache]
  by (simp add: doubleMul_quarter_40)

theorem submit_assessment_at_70_witness:
  "JObj [(''action'', JStr ''submit-assessment''),
         (''assessmentId'', JStr ''nasa-fundamentals''),
         (''answers'', JArr [JNum 1, JNum 3])] \<noteq> JNull
   \<and> fst (POST \<lparr>nowMs = 1704067200000, nowISO = ''2024-01-01T00:00:00.000Z''\<rparr> (1 / 4)
        \<lparr>actionParam = None, moduleIdParam = None, userIdParam = Some ''guest'',
         levelParam = None\<rparr>
        (Some (JObj [(''action'', JStr ''submit-assessment''),
                     (''assessmentId'', JStr ''nasa-fundamentals''),
                     (''answers'', JArr [JNum 1, JNum 3])]))
        emptyCache)
     = \<lparr>status = 200, payload = AssessmentResultBody 70 100 True 1452\<rparr>"
proof -
  let ?b = "JObj [(''action'', JStr ''submit-assessment''),
         (''assessmentId'', JStr ''nasa-fundamentals''),
         (''answers'', JArr [JNum 1, JNum 3])]"
  let ?clk = "\<lparr>nowMs = 1704067200000, nowISO = ''2024-01-01T00:00:00.000Z''\<rparr>"
  let ?q = "\<lparr>actionParam = None, moduleIdParam = None, userIdParam = Some ''guest'',
         levelParam = None\<rparr>"
  have b: "?b \<noteq> JNull" "getProp ?b ''action'' = Some (JStr ''submit-assessment'')"
    "truthy (getProp ?b ''assessmentId'')" "truthy (getProp ?b ''answers'')"
    by simp_all
  from submit_assessment_at_70 [OF b, of ?clk ?q emptyCache]
  obtain total where r: "fst (POST ?clk (1 / 4) ?q (Some ?b) emptyCache)
      = \<lparr>status = 200, payload = AssessmentResultBody 70 100 True total\<rparr>"
    by blast
  have "fst (POST ?clk (1 / 4) ?q (Some ?b) emptyCache)
      = \<lparr>status = 200, payload = AssessmentResultBody 70 100 True 1452\<rparr>"
    by (simp add: POST_def Let_def ok_def awardXP_def fetchUserProgress_def getCachedData_def
        emptyCache_def orElse_def getUserProgressFromDatabase_def userHash_def shl_def
        doubleMul_quarter_40 split: prod.splits)
  with r b show ?thesis by simp
qed

end
